theory Spec2Isabelle
  imports Main "HOL-Library.Sublist"
begin

section \<open>Data model\<close>

text \<open>
  A Go \<open>error\<close> is observed by this program only through its \<open>Error()\<close> text: that is
  what \<open>%v\<close> formats and what \<open>fatal\<close> writes to standard error. A nil error is
  \<open>None\<close>. Strings are byte strings, as in Go.
\<close>

type_synonym error = string

text \<open>
  Modelled from the spec: the run configuration \<open>config.Config\<close> is declared in package
  \<open>config\<close>, which is not among the sources. \<open>main.go\<close> reads only \<open>cfg.Logfile\<close>; the other
  fields are those of section 6 of the specification.
\<close>

record Config =
  ResourceGroupName :: string
  OutputDir :: string
  MappingFile :: string
  NamePattern :: string
  Logfile :: string

text \<open>
  Modelled from the spec: the record type \<open>meta.ImportItem\<close> (the element type of the
  slice returned by \<open>ListResource\<close>) is declared in package \<open>meta\<close>, which is not among
  the sources. \<open>main.go\<close> uses the fields \<open>ResourceID\<close> and \<open>ImportError\<close> and the methods
  \<open>Skip()\<close> and \<open>TFAddr()\<close>; following section 3 of the specification, \<open>Skip()\<close> is the
  absence of a mapping and \<open>TFAddr()\<close> is the target address.
\<close>

record ImportItem =
  ResourceID :: string
  mappingPresent :: bool
  targetAddress :: string
  ImportError :: "error option"

definition Skip :: "ImportItem \<Rightarrow> bool" where
  "Skip r \<longleftrightarrow> \<not> mappingPresent r"

definition TFAddr :: "ImportItem \<Rightarrow> string" where
  "TFAddr r = targetAddress r"

text \<open>
  The engine \<open>c\<close> returned by \<open>meta.NewMeta\<close> lives in package \<open>meta\<close> as well, so its five
  operations are parameters of the model. The engine is stateful: every operation takes
  the engine state and the operations called before generation return the new one.
  \<open>Import\<close> receives a pointer to one record and may write to that record; it returns
  the record as it leaves it. The model hands \<open>Import\<close> that one record only: an engine
  that kept the slice returned by \<open>ListResource\<close> and wrote to other records through it
  is not covered.
\<close>

record 's Meta =
  NewMeta :: "Config \<Rightarrow> error + 's"
  Init :: "'s \<Rightarrow> error + 's"
  ListResource :: "'s \<Rightarrow> ImportItem list \<times> 's"
  Import :: "'s \<Rightarrow> ImportItem \<Rightarrow> ImportItem \<times> 's"
  GenerateCfg :: "'s \<Rightarrow> ImportItem list \<Rightarrow> error option"

text \<open>
  What a run does to the outside is recorded as a trace of events, in program order:
  the lines it logs, the calls it makes to the engine and to the operating system, and
  what the process writes to its standard streams. A logger is its sink and its prefix;
  a logged line is recorded by its text, without the timestamp the logger puts in front
  and without the newline that ends it.
\<close>

datatype sink = Stderr | Stdout | File string

datatype logger = Logger sink string

datatype event =
    SetOutputDiscard
  | CallOpenFile string
  | Log logger string
  | CallNewMeta Config
  | CallInit
  | CallListResource
  | CallImport ImportItem
  | CallGenerateCfg "ImportItem list"
  | Write sink string
  | PrintDefaults
  | CallNewConfig string string string string
  | CallNewProgram Config
  | CallStart

definition nl :: string where
  "nl = [CHR 0x0A]"

section \<open>Formatting with no operands\<close>

text \<open>
  \<open>batchImport\<close> builds its abort error with \<open>fmt.Errorf(msg)\<close>: the message is passed as
  the format string and there is no operand. What follows transcribes \<open>doPrintf\<close> of
  Go's package \<open>fmt\<close> for that case (\<open>len(a) = 0\<close>): text up to a percent sign is copied;
  after a percent sign come flags, an optional argument index, a width, a precision,
  another argument index and the verb. With no operand the fast path for simple verbs is
  never taken, no argument index is in range, and every verb other than \<open>%\<close> is
  reported as missing its operand.
\<close>

definition isDigit :: "char \<Rightarrow> bool" where
  "isDigit c \<longleftrightarrow> (48::nat) \<le> of_char c \<and> (of_char c :: nat) \<le> 57"

definition tooLarge :: "int \<Rightarrow> bool" where
  "tooLarge x \<longleftrightarrow> x > 1000000 \<or> x < - 1000000"

text \<open>
  \<open>parsenum(s, start, end)\<close>: the loop over the digits from \<open>start\<close>, given the bytes
  \<open>s[start:end]\<close> still to be read.
\<close>

fun parsenum_loop :: "string \<Rightarrow> nat \<Rightarrow> nat \<Rightarrow> int \<Rightarrow> bool \<Rightarrow> int \<times> bool \<times> nat" where
  "parsenum_loop [] newi e num isnum = (num, isnum, newi)"
| "parsenum_loop (c # cs) newi e num isnum =
     (if isDigit c then
        (if tooLarge num then (0, False, e)
         else parsenum_loop cs (Suc newi) e (num * 10 + (int (of_char c) - 48)) True)
      else (num, isnum, newi))"

definition parsenum :: "string \<Rightarrow> nat \<Rightarrow> nat \<Rightarrow> int \<times> bool \<times> nat" where
  "parsenum s start e =
     (if start \<ge> e then (0, False, e)
      else parsenum_loop (take (e - start) (drop start s)) start e 0 False)"

text \<open>\<open>parseArgNumber(format)\<close>, where \<open>format\<close> starts with the opening bracket.\<close>

definition parseArgNumber :: "string \<Rightarrow> int \<times> nat \<times> bool" where
  "parseArgNumber format =
     (if length format < 3 then (0, 1, False)
      else
        let i = Suc (length (takeWhile (\<lambda>c. c \<noteq> CHR '']'') (tl format))) in
        if i < length format then
          (case parsenum format 1 i of
             (width, ok, newi) \<Rightarrow>
               if \<not> ok \<or> newi \<noteq> i then (0, i + 1, False)
               else (width - 1, i + 1, True))
        else (0, 1, False))"

text \<open>
  \<open>argNumber(argNum, format, i, numArgs)\<close> with \<open>numArgs = 0\<close>: no index is in range, so
  a bracket always clears \<open>goodArgNum\<close>. The result is the new position, whether an
  index was found, and \<open>goodArgNum\<close>.
\<close>

definition argNumber :: "string \<Rightarrow> nat \<Rightarrow> bool \<Rightarrow> nat \<times> bool \<times> bool" where
  "argNumber format i goodArgNum =
     (if length format \<le> i \<or> format ! i \<noteq> CHR ''['' then (i, False, goodArgNum)
      else
        (case parseArgNumber (drop i format) of
           (index, wid, ok) \<Rightarrow> (i + wid, ok, False)))"

definition RuneError :: string where
  "RuneError = [CHR 0xEF, CHR 0xBF, CHR 0xBD]"

text \<open>
  The verb is one rune: \<open>utf8.DecodeRuneInString\<close> followed by \<open>writeRune\<close>. The result is
  the bytes written for the rune and the number of bytes read. A well-formed encoding is
  written back as it was read; anything else is one byte read and U+FFFD written.
\<close>

definition decodeRune :: "string \<Rightarrow> string \<times> nat" where
  "decodeRune s =
     (let b0 = (of_char (s ! 0) :: nat);
          cont = (\<lambda>k. (0x80::nat) \<le> of_char (s ! k) \<and> (of_char (s ! k) :: nat) \<le> 0xBF) in
      if b0 < 0x80 then ([s ! 0], 1)
      else
        let sz = (if 0xC2 \<le> b0 \<and> b0 \<le> 0xDF then 2
                  else if 0xE0 \<le> b0 \<and> b0 \<le> 0xEF then 3
                  else if 0xF0 \<le> b0 \<and> b0 \<le> 0xF4 then 4 else (0::nat));
            lo = (if b0 = 0xE0 then 0xA0 else if b0 = 0xF0 then 0x90 else (0x80::nat));
            hi = (if b0 = 0xED then 0x9F else if b0 = 0xF4 then 0x8F else (0xBF::nat)) in
        if sz = 0 \<or> length s < sz then (RuneError, 1)
        else if (of_char (s ! 1) :: nat) < lo \<or> hi < (of_char (s ! 1) :: nat) then (RuneError, 1)
        else if sz \<le> 2 then (take 2 s, 2)
        else if \<not> cont 2 then (RuneError, 1)
        else if sz \<le> 3 then (take 3 s, 3)
        else if \<not> cont 3 then (RuneError, 1)
        else (take 4 s, 4))"

definition isFlag :: "char \<Rightarrow> bool" where
  "isFlag c \<longleftrightarrow> c \<in> set ''#0+- ''"

text \<open>
  One verb: \<open>format\<close> is the text after the percent sign. The result is what is written
  and how many bytes of \<open>format\<close> were read.
\<close>

definition doVerb :: "string \<Rightarrow> string \<times> nat" where
  "doVerb format =
     (let e = length format;
          i0 = length (takeWhile isFlag format) in
      case argNumber format i0 True of (i1, afterIndex1, good1) \<Rightarrow>
      case (if i1 < e \<and> format ! i1 = CHR ''*''
            then (''%!(BADWIDTH)'', Suc i1, False, good1)
            else (case parsenum format i1 e of (wid, widPresent, i) \<Rightarrow>
                    ([], i, afterIndex1, good1 \<and> \<not> (afterIndex1 \<and> widPresent))))
      of (buf2, i2, afterIndex2, good2) \<Rightarrow>
      case (if i2 + 1 < e \<and> format ! i2 = CHR ''.'' then
              (case argNumber format (Suc i2) (good2 \<and> \<not> afterIndex2) of (j, afterIndex, good) \<Rightarrow>
                 if j < e \<and> format ! j = CHR ''*''
                 then (''%!(BADPREC)'', Suc j, False, good)
                 else (case parsenum format j e of (prec, precPresent, i) \<Rightarrow>
                         ([], i, afterIndex, good)))
            else ([], i2, afterIndex2, good2))
      of (buf3, i3, afterIndex3, good3) \<Rightarrow>
      case (if \<not> afterIndex3 then argNumber format i3 good3 else (i3, afterIndex3, good3))
      of (i4, afterIndex4, good4) \<Rightarrow>
      if i4 \<ge> e then (buf2 @ buf3 @ ''%!(NOVERB)'', i4)
      else
        (case decodeRune (drop i4 format) of (verb, n) \<Rightarrow>
           (buf2 @ buf3 @
              (if verb = ''%'' then ''%''
               else if \<not> good4 then ''%!'' @ verb @ ''(BADINDEX)''
               else ''%!'' @ verb @ ''(MISSING)''),
            i4 + n)))"

fun doPrintf :: "string \<Rightarrow> string" where
  "doPrintf [] = []"
| "doPrintf (c # cs) =
     (if c \<noteq> CHR ''%'' then c # doPrintf cs
      else (case doVerb cs of (out, n) \<Rightarrow> out @ doPrintf (drop n cs)))"

text \<open>\<open>fmt.Errorf(format)\<close> with no operand: an error whose text is the formatted string.\<close>

definition Errorf0 :: "string \<Rightarrow> error" where
  "Errorf0 format = doPrintf format"

section \<open>The batch orchestrator\<close>

text \<open>
  The message of a failed import, \<open>fmt.Sprintf("Failed to import %s as %s: %v", ...)\<close>,
  built from the record as the engine left it.
\<close>

definition failedMsg :: "ImportItem \<Rightarrow> error \<Rightarrow> string" where
  "failedMsg r err = ''Failed to import '' @ ResourceID r @ '' as '' @ TFAddr r @ '': '' @ err"

definition warnLine :: "ImportItem \<Rightarrow> string" where
  "warnLine r = ''[WARN] No mapping information for resource: '' @ ResourceID r @ '', skip it''"

definition importingLine :: "ImportItem \<Rightarrow> string" where
  "importingLine r = ''Importing '' @ ResourceID r @ '' as '' @ TFAddr r"

text \<open>
  The body of the loop of \<open>batchImport\<close> for the record \<open>list[i]\<close>: the error
  returned if the run aborts here, the record and the engine state afterwards, and the
  events of this iteration.
\<close>

definition importBody ::
  "'s Meta \<Rightarrow> bool \<Rightarrow> logger \<Rightarrow> ImportItem \<Rightarrow> 's \<Rightarrow> error option \<times> ImportItem \<times> 's \<times> event list" where
  "importBody c continueOnError lg r s =
     (if Skip r then (None, r, s, [Log lg (warnLine r)])
      else
        (case Import c s r of (r', s') \<Rightarrow>
           (case ImportError r' of
              None \<Rightarrow> (None, r', s', [Log lg (importingLine r), CallImport r])
            | Some err \<Rightarrow>
                if \<not> continueOnError
                then (Some (Errorf0 (failedMsg r' err)), r', s',
                      [Log lg (importingLine r), CallImport r])
                else (None, r', s',
                      [Log lg (importingLine r), CallImport r,
                       Log lg (''[ERROR] '' @ failedMsg r' err)]))))"

text \<open>
  The loop \<open>for i := range list\<close>, over the records still to be visited. It returns the
  abort error if any, the records as they are when the loop ends (those after an abort
  as they were), the engine state and the events.
\<close>

fun importLoop ::
  "'s Meta \<Rightarrow> bool \<Rightarrow> logger \<Rightarrow> ImportItem list \<Rightarrow> 's \<Rightarrow> error option \<times> ImportItem list \<times> 's \<times> event list" where
  "importLoop c continueOnError lg [] s = (None, [], s, [])"
| "importLoop c continueOnError lg (r # rs) s =
     (case importBody c continueOnError lg r s of
        (Some err, r', s', ev) \<Rightarrow> (Some err, r' # rs, s', ev)
      | (None, r', s', ev) \<Rightarrow>
          (case importLoop c continueOnError lg rs s' of
             (res, rs', s'', ev') \<Rightarrow> (res, r' # rs', s'', ev @ ev')))"

text \<open>
  The logger of the run: standard error with an empty prefix, or the log file with the
  prefix \<open>aztfy\<close>.
\<close>

definition runLogger :: "Config \<Rightarrow> logger" where
  "runLogger cfg =
     (if Logfile cfg \<noteq> [] then Logger (File (Logfile cfg)) ''aztfy'' else Logger Stderr [])"

text \<open>
  \<open>batchImport(cfg, continueOnError)\<close>. \<open>openFile\<close> stands for \<open>os.OpenFile\<close> with the
  flags of the source: it returns the error, or \<open>None\<close> when the file is open. The result
  is the error returned and the trace of the run.
\<close>

definition batchImport ::
  "(string \<Rightarrow> error option) \<Rightarrow> 's Meta \<Rightarrow> Config \<Rightarrow> bool \<Rightarrow> error option \<times> event list" where
  "batchImport openFile c cfg continueOnError =
     (case (if Logfile cfg \<noteq> [] then openFile (Logfile cfg) else None) of
        Some err \<Rightarrow> (Some err, [SetOutputDiscard, CallOpenFile (Logfile cfg)])
      | None \<Rightarrow>
          let logger = runLogger cfg;
              ev0 = SetOutputDiscard #
                    (if Logfile cfg \<noteq> [] then [CallOpenFile (Logfile cfg)] else []);
              ev1 = ev0 @ [Log logger ''New meta'', CallNewMeta cfg] in
          (case NewMeta c cfg of
             Inl err \<Rightarrow> (Some err, ev1)
           | Inr s0 \<Rightarrow>
               let ev2 = ev1 @ [Log logger ''Initialize'', CallInit] in
               (case Init c s0 of
                  Inl err \<Rightarrow> (Some err, ev2)
                | Inr s1 \<Rightarrow>
                    (case ListResource c s1 of (list, s2) \<Rightarrow>
                       let ev3 = ev2 @ [Log logger ''List resources'', CallListResource,
                                        Log logger ''Import resources''] in
                       (case importLoop c continueOnError logger list s2 of
                          (Some err, list', s3, ev) \<Rightarrow> (Some err, ev3 @ ev)
                        | (None, list', s3, ev) \<Rightarrow>
                            let ev4 = ev3 @ ev @ [Log logger ''Generate Terraform configurations'',
                                                  CallGenerateCfg list'] in
                            (case GenerateCfg c s3 list' of
                               Some err \<Rightarrow>
                                 (Some (''generating Terraform configuration: '' @ err), ev4)
                             | None \<Rightarrow> (None, ev4)))))))"

section \<open>The process\<close>

text \<open>
  The command line after \<open>flag.Parse()\<close>: the six flags with their defaults, and the
  positional arguments \<open>flag.Args()\<close>. \<open>flag.Parse\<close> itself ends the process on a
  command line it cannot parse; \<open>main\<close> is modelled from a parsed one.
\<close>

record Flags =
  flagVersion :: bool
  flagOutputDir :: string
  flagMappingFile :: string
  flagContinue :: bool
  flagQuietMode :: bool
  flagPattern :: string

text \<open>
  What \<open>main\<close> takes from outside \<open>main.go\<close>: the package variable \<open>version\<close>,
  \<open>config.NewConfig\<close>, \<open>os.OpenFile\<close>, the engine, and the interactive program of package
  \<open>ui\<close> (\<open>NewProgram\<close> and \<open>Start\<close>).
\<close>

record ('s, 'p) World =
  version :: string
  NewConfig :: "string \<Rightarrow> string \<Rightarrow> string \<Rightarrow> string \<Rightarrow> error + Config"
  OpenFile :: "string \<Rightarrow> error option"
  meta :: "'s Meta"
  NewProgram :: "Config \<Rightarrow> error + 'p"
  Start :: "'p \<Rightarrow> error option"

definition usage :: string where
  "usage = ''aztfy [option] <resource group name>'' @ nl"

text \<open>\<open>fatal(err)\<close>: the error on standard error, exit code 1.\<close>

definition fatal :: "error \<Rightarrow> event list \<Rightarrow> int \<times> event list" where
  "fatal err ev = (1, ev @ [Write Stderr (err @ nl)])"

text \<open>
  \<open>main\<close>, from the parsed command line to the exit code of the process and its trace.
  \<open>flag.Usage\<close> writes the usage text and the flag defaults to the output of the flag
  set, which is standard error.
\<close>

definition main :: "('s, 'p) World \<Rightarrow> Flags \<Rightarrow> string list \<Rightarrow> int \<times> event list" where
  "main w fl args =
     (if flagVersion fl then (0, [Write Stdout (version w @ nl)])
      else if length args \<noteq> 1 then (1, [Write Stderr (usage @ nl), PrintDefaults])
      else if flagQuietMode fl \<and> flagMappingFile fl = []
        then fatal ''`-q` must be used together with `-m`'' []
      else if flagContinue fl \<and> \<not> flagQuietMode fl
        then fatal ''`-k` must be used together with `-q`'' []
      else
        let rg = args ! 0;
            ev0 = [CallNewConfig rg (flagOutputDir fl) (flagMappingFile fl) (flagPattern fl)] in
        (case NewConfig w rg (flagOutputDir fl) (flagMappingFile fl) (flagPattern fl) of
           Inl err \<Rightarrow> fatal err ev0
         | Inr cfg \<Rightarrow>
             if flagQuietMode fl then
               (case batchImport (OpenFile w) (meta w) cfg (flagContinue fl) of
                  (Some err, ev) \<Rightarrow> fatal err (ev0 @ ev)
                | (None, ev) \<Rightarrow> (0, ev0 @ ev))
             else
               (case NewProgram w cfg of
                  Inl err \<Rightarrow> fatal err (ev0 @ [CallNewProgram cfg])
                | Inr prog \<Rightarrow>
                    (case Start w prog of
                       Some err \<Rightarrow> fatal err (ev0 @ [CallNewProgram cfg, CallStart])
                     | None \<Rightarrow> (0, ev0 @ [CallNewProgram cfg, CallStart])))))"

section \<open>Reading a trace\<close>

text \<open>The records handed to the engine's \<open>Import\<close>, in call order.\<close>

fun importsOf :: "event list \<Rightarrow> ImportItem list" where
  "importsOf [] = []"
| "importsOf (CallImport r # es) = r # importsOf es"
| "importsOf (e # es) = importsOf es"

text \<open>The record sequences handed to the engine's \<open>GenerateCfg\<close>, in call order.\<close>

fun generatedOf :: "event list \<Rightarrow> ImportItem list list" where
  "generatedOf [] = []"
| "generatedOf (CallGenerateCfg rs # es) = rs # generatedOf es"
| "generatedOf (e # es) = generatedOf es"

text \<open>The calls a run makes to the engine.\<close>

fun isEngineCall :: "event \<Rightarrow> bool" where
  "isEngineCall (CallNewMeta cfg) = True"
| "isEngineCall CallInit = True"
| "isEngineCall CallListResource = True"
| "isEngineCall (CallImport r) = True"
| "isEngineCall (CallGenerateCfg rs) = True"
| "isEngineCall e = False"

definition engineCalls :: "event list \<Rightarrow> event list" where
  "engineCalls tr = filter isEngineCall tr"

text \<open>
  How far a run of \<open>batchImport\<close> gets before its loop: the records returned by
  \<open>ListResource\<close> and the engine state at the start of the import phase, when the log file
  opens and the engine is constructed and initialised; \<open>None\<close> when the run returns
  before discovery.
\<close>

definition discovered ::
  "(string \<Rightarrow> error option) \<Rightarrow> 's Meta \<Rightarrow> Config \<Rightarrow> (ImportItem list \<times> 's) option" where
  "discovered openFile c cfg =
     (case (if Logfile cfg \<noteq> [] then openFile (Logfile cfg) else None) of
        Some err \<Rightarrow> None
      | None \<Rightarrow>
          (case NewMeta c cfg of
             Inl err \<Rightarrow> None
           | Inr s0 \<Rightarrow> (case Init c s0 of Inl err \<Rightarrow> None | Inr s1 \<Rightarrow> Some (ListResource c s1))))"

text \<open>
  Modelled from the spec: the engine's \<open>Import\<close> is not among the sources. Sections 4.1
  and 6 of the specification give its contract: it records its outcome on the record
  itself, in the field \<open>importError\<close>, and writes no other field.
\<close>

definition importWritesOnlyError :: "'s Meta \<Rightarrow> bool" where
  "importWritesOnlyError c \<longleftrightarrow>
     (\<forall>s r. fst (Import c s r) = r\<lparr>ImportError := ImportError (fst (Import c s r))\<rparr>)"

section \<open>Example collaborators\<close>

text \<open>
  An engine that discovers the given records, fails the import of a record according to
  its resource ID, counts its imports in its state, and generates with the given
  outcome; a configuration; and a world around them.
\<close>

definition item :: "string \<Rightarrow> bool \<Rightarrow> string \<Rightarrow> ImportItem" where
  "item rid m addr =
     \<lparr>ResourceID = rid, mappingPresent = m, targetAddress = addr, ImportError = None\<rparr>"

definition scriptedMeta ::
  "ImportItem list \<Rightarrow> (string \<Rightarrow> error option) \<Rightarrow> error option \<Rightarrow> nat Meta" where
  "scriptedMeta rs outcome gen =
     \<lparr>NewMeta = (\<lambda>cfg. Inr 0),
      Init = (\<lambda>s. Inr s),
      ListResource = (\<lambda>s. (rs, s)),
      Import = (\<lambda>s r. (r\<lparr>ImportError := outcome (ResourceID r)\<rparr>, Suc s)),
      GenerateCfg = (\<lambda>s l. gen)\<rparr>"

definition exampleConfig :: "string \<Rightarrow> Config" where
  "exampleConfig logfile =
     \<lparr>ResourceGroupName = ''rg'', OutputDir = ''out'', MappingFile = ''map.json'',
      NamePattern = ''res-'', Logfile = logfile\<rparr>"

definition exampleWorld :: "nat Meta \<Rightarrow> (nat, unit) World" where
  "exampleWorld c =
     \<lparr>version = ''v0.1.0'',
      NewConfig = (\<lambda>rg out mapping pattern. Inr (exampleConfig [])),
      OpenFile = (\<lambda>path. None),
      meta = c,
      NewProgram = (\<lambda>cfg. Inr ()),
      Start = (\<lambda>p. None)\<rparr>"

definition abc :: "ImportItem list" where
  "abc = [item ''A'' True ''t.a'', item ''B'' True ''t.b'', item ''C'' True ''t.c'']"

definition aubc :: "ImportItem list" where
  "aubc = [item ''A'' True ''t.a'', item ''U'' False [], item ''B'' True ''t.b'',
           item ''C'' True ''t.c'']"

definition failB :: "error \<Rightarrow> string \<Rightarrow> error option" where
  "failB cause rid = (if rid = ''B'' then Some cause else None)"

definition exampleFlags :: "bool \<Rightarrow> string \<Rightarrow> bool \<Rightarrow> bool \<Rightarrow> Flags" where
  "exampleFlags v m k q =
     \<lparr>flagVersion = v, flagOutputDir = [], flagMappingFile = m, flagContinue = k,
      flagQuietMode = q, flagPattern = ''res-''\<rparr>"

text \<open>
  The events of a run from its start to the start of its import loop, when it gets
  that far.
\<close>

definition setupEvents :: "Config \<Rightarrow> event list" where
  "setupEvents cfg =
     SetOutputDiscard # (if Logfile cfg \<noteq> [] then [CallOpenFile (Logfile cfg)] else []) @
     [Log (runLogger cfg) ''New meta'', CallNewMeta cfg,
      Log (runLogger cfg) ''Initialize'', CallInit,
      Log (runLogger cfg) ''List resources'', CallListResource,
      Log (runLogger cfg) ''Import resources'']"

section \<open>The loop\<close>

lemma importsOf_append: "importsOf (xs @ ys) = importsOf xs @ importsOf ys"
  by (induction xs rule: importsOf.induct) simp_all

lemma generatedOf_append: "generatedOf (xs @ ys) = generatedOf xs @ generatedOf ys"
  by (induction xs rule: generatedOf.induct) simp_all

lemma importBody_cases:
  assumes "importBody c k lg r s = (res, r', s', ev)"
  shows "importsOf ev = (if Skip r then [] else [r])"
    and "generatedOf ev = []"
    and "Skip r \<Longrightarrow> r' = r \<and> s' = s \<and> res = None \<and> ev = [Log lg (warnLine r)]"
    and "\<not> Skip r \<Longrightarrow> Import c s r = (r', s')"
    and "k \<Longrightarrow> res = None"
    and "k \<Longrightarrow> \<not> Skip r \<Longrightarrow> ImportError r' = Some err \<Longrightarrow>
           Log lg (''[ERROR] '' @ failedMsg r' err) \<in> set ev"
  using assms
  by (auto simp: importBody_def split: if_splits prod.splits option.splits)

lemma importLoop_Cons:
  assumes "importLoop c k lg (r # rs) s = (res, xs, s', ev)"
  obtains (abort) err r' ev0 where "importBody c k lg r s = (Some err, r', s', ev0)"
      "res = Some err" "xs = r' # rs" "ev = ev0"
  | (continue) r' s1 ev0 rs' ev1 where "importBody c k lg r s = (None, r', s1, ev0)"
      "importLoop c k lg rs s1 = (res, rs', s', ev1)" "xs = r' # rs'" "ev = ev0 @ ev1"
  using assms by (auto split: prod.splits option.splits)

lemma importLoop_length:
  "importLoop c k lg rs s = (res, rs', s', ev) \<Longrightarrow> length rs' = length rs"
proof (induction rs arbitrary: s res rs' s' ev)
  case Nil
  then show ?case by simp
next
  case (Cons r rs)
  from Cons.prems show ?case
    by (cases rule: importLoop_Cons) (auto dest: Cons.IH)
qed

lemma importLoop_generatedOf:
  "importLoop c k lg rs s = (res, rs', s', ev) \<Longrightarrow> generatedOf ev = []"
proof (induction rs arbitrary: s res rs' s' ev)
  case Nil
  then show ?case by simp
next
  case (Cons r rs)
  from Cons.prems show ?case
    by (cases rule: importLoop_Cons)
      (auto simp: generatedOf_append dest: Cons.IH importBody_cases(2))
qed

lemma importLoop_continue:
  "importLoop c True lg rs s = (res, rs', s', ev) \<Longrightarrow> res = None"
proof (induction rs arbitrary: s res rs' s' ev)
  case Nil
  then show ?case by simp
next
  case (Cons r rs)
  from Cons.prems show ?case
    by (cases rule: importLoop_Cons) (auto dest: Cons.IH importBody_cases(5))
qed

lemma importBody_record:
  assumes "importBody c k lg r s = (res, r', s', ev)"
  shows "(Skip r \<longrightarrow> r' = r) \<and> (r' = r \<or> (\<not> Skip r \<and> (\<exists>t. r' = fst (Import c t r))))"
proof (cases "Skip r")
  case True
  then show ?thesis using importBody_cases(3)[OF assms] by simp
next
  case False
  then have "r' = fst (Import c s r)" using importBody_cases(4)[OF assms] by simp
  then show ?thesis using False by blast
qed

lemma importLoop_nth:
  "importLoop c k lg rs s = (res, rs', s', ev) \<Longrightarrow> i < length rs \<Longrightarrow>
     (Skip (rs ! i) \<longrightarrow> rs' ! i = rs ! i) \<and>
     (rs' ! i = rs ! i \<or> (\<not> Skip (rs ! i) \<and> (\<exists>t. rs' ! i = fst (Import c t (rs ! i)))))"
proof (induction rs arbitrary: s res rs' s' ev i)
  case Nil
  then show ?case by simp
next
  case (Cons r rs)
  from Cons.prems(1) show ?case
  proof (cases rule: importLoop_Cons)
    case (abort err r' ev0)
    then show ?thesis
      using importBody_record[OF abort(1)] Cons.prems(2) by (cases i) simp_all
  next
    case (continue r' s1 ev0 rs'' ev1)
    show ?thesis
    proof (cases i)
      case 0
      then show ?thesis
        using importBody_record[OF continue(1)] continue(3) by simp
    next
      case (Suc j)
      then show ?thesis
        using Cons.IH[OF continue(2), of j] Cons.prems(2) continue(3) by simp
    qed
  qed
qed

lemma importLoop_reach:
  "importLoop c k lg rs s = (res, rs', s', ev) \<Longrightarrow>
     \<exists>n\<le>length rs. (res = None \<longrightarrow> n = length rs) \<and>
        importsOf ev = filter (\<lambda>r. \<not> Skip r) (take n rs) \<and>
        drop n rs' = drop n rs \<and>
        (\<forall>i<n. Skip (rs ! i) \<longrightarrow> Log lg (warnLine (rs ! i)) \<in> set ev)"
proof (induction rs arbitrary: s res rs' s' ev)
  case Nil
  then show ?case by simp
next
  case (Cons r rs)
  from Cons.prems show ?case
  proof (cases rule: importLoop_Cons)
    case (abort err r' ev0)
    have "\<not> Skip r" using importBody_cases(3)[OF abort(1)] by auto
    then show ?thesis
      using importBody_cases(1)[OF abort(1)] abort
      by (intro exI[of _ "Suc 0"]) simp
  next
    case (continue r' s1 ev0 rs'' ev1)
    from Cons.IH[OF continue(2)] obtain n where n: "n \<le> length rs"
      "res = None \<longrightarrow> n = length rs"
      "importsOf ev1 = filter (\<lambda>r. \<not> Skip r) (take n rs)"
      "drop n rs'' = drop n rs"
      "\<forall>i<n. Skip (rs ! i) \<longrightarrow> Log lg (warnLine (rs ! i)) \<in> set ev1"
      by blast
    have w: "\<forall>i<Suc n. Skip ((r # rs) ! i) \<longrightarrow> Log lg (warnLine ((r # rs) ! i)) \<in> set ev"
    proof (intro allI impI)
      fix i assume "i < Suc n" "Skip ((r # rs) ! i)"
      then show "Log lg (warnLine ((r # rs) ! i)) \<in> set ev"
        using importBody_cases(3)[OF continue(1)] n(5) continue(4)
        by (cases i) auto
    qed
    show ?thesis
      using n(1-4) w importBody_cases(1)[OF continue(1)] continue(3,4)
      by (intro exI[of _ "Suc n"]) (simp add: importsOf_append)
  qed
qed

lemma importLoop_error_logged:
  "importLoop c True lg rs s = (res, rs', s', ev) \<Longrightarrow> i < length rs \<Longrightarrow>
     \<not> Skip (rs ! i) \<Longrightarrow> ImportError (rs' ! i) = Some err \<Longrightarrow>
     Log lg (''[ERROR] '' @ failedMsg (rs' ! i) err) \<in> set ev"
proof (induction rs arbitrary: s res rs' s' ev i)
  case Nil
  then show ?case by simp
next
  case (Cons r rs)
  from Cons.prems(1) show ?case
  proof (cases rule: importLoop_Cons)
    case (abort err' r' ev0)
    then show ?thesis using importBody_cases(5)[OF abort(1)] by simp
  next
    case (continue r' s1 ev0 rs'' ev1)
    show ?thesis
    proof (cases i)
      case 0
      then show ?thesis
        using importBody_cases(6)[OF continue(1), of err] continue(3,4) Cons.prems by simp
    next
      case (Suc j)
      then show ?thesis
        using Cons.IH[OF continue(2), of j] Cons.prems continue(3,4) by simp
    qed
  qed
qed

lemma importLoop_abort:
  assumes "importLoop c False lg as s = (None, as', t, ev1)"
    and "\<not> Skip b" and "Import c t b = (b', u)" and "ImportError b' = Some cause"
  shows "importLoop c False lg (as @ b # cs) s =
           (Some (Errorf0 (failedMsg b' cause)), as' @ b' # cs, u,
            ev1 @ [Log lg (importingLine b), CallImport b])"
  using assms(1)
proof (induction as arbitrary: s as' ev1)
  case Nil
  then show ?case using assms(2-4) by (simp add: importBody_def)
next
  case (Cons a as)
  from Cons.prems show ?case
  proof (cases rule: importLoop_Cons)
    case (abort err r' ev0)
    then show ?thesis by simp
  next
    case (continue r' s1 ev0 rs' ev1')
    then show ?thesis using Cons.IH[OF continue(2)] by simp
  qed
qed

section \<open>The run\<close>

lemma batchImport_discovered:
  assumes "discovered openFile c cfg = Some (rs, s)"
    and "importLoop c k (runLogger cfg) rs s = (res, rs', s', ev)"
  shows "batchImport openFile c cfg k =
           (case res of
              Some err \<Rightarrow> (Some err, setupEvents cfg @ ev)
            | None \<Rightarrow>
                (map_option ((@) ''generating Terraform configuration: '') (GenerateCfg c s' rs'),
                 setupEvents cfg @ ev @
                   [Log (runLogger cfg) ''Generate Terraform configurations'',
                    CallGenerateCfg rs']))"
  using assms
  by (auto simp: discovered_def batchImport_def setupEvents_def Let_def
      split: option.splits sum.splits if_splits prod.splits)

lemma importsOf_setupEvents: "importsOf (setupEvents cfg) = []"
  by (simp add: setupEvents_def)

lemma generatedOf_setupEvents: "generatedOf (setupEvents cfg) = []"
  by (simp add: setupEvents_def)

lemma engineCalls_setupEvents:
  "engineCalls (setupEvents cfg) = [CallNewMeta cfg, CallInit, CallListResource]"
  by (simp add: setupEvents_def engineCalls_def)

lemma engineCalls_append: "engineCalls (xs @ ys) = engineCalls xs @ engineCalls ys"
  by (simp add: engineCalls_def)

lemma importBody_engineCalls:
  "importBody c k lg r s = (res, r', s', ev) \<Longrightarrow> engineCalls ev = map CallImport (importsOf ev)"
  by (auto simp: importBody_def engineCalls_def split: if_splits prod.splits option.splits)

lemma importLoop_engineCalls:
  "importLoop c k lg rs s = (res, rs', s', ev) \<Longrightarrow> engineCalls ev = map CallImport (importsOf ev)"
proof (induction rs arbitrary: s res rs' s' ev)
  case Nil
  then show ?case by (simp add: engineCalls_def)
next
  case (Cons r rs)
  from Cons.prems show ?case
  proof (cases rule: importLoop_Cons)
    case (abort err r' ev0)
    then show ?thesis using importBody_engineCalls by simp
  next
    case (continue r' s1 ev0 rs'' ev1)
    then show ?thesis
      using importBody_engineCalls[OF continue(1)] Cons.IH[OF continue(2)]
      by (simp add: engineCalls_append importsOf_append)
  qed
qed

lemma batchImport_abort:
  assumes "discovered openFile c cfg = Some (as @ b # cs, s)"
    and "importLoop c False (runLogger cfg) as s = (None, as', t, ev)"
    and "\<not> Skip b" and "Import c t b = (b', u)" and "ImportError b' = Some cause"
  shows "batchImport openFile c cfg False =
           (Some (Errorf0 (failedMsg b' cause)),
            setupEvents cfg @ ev @ [Log (runLogger cfg) (importingLine b), CallImport b])"
  using batchImport_discovered[OF assms(1) importLoop_abort[OF assms(2-5)]] by simp

lemma filter_ListResource_imports:
  "filter ((=) CallListResource) (map CallImport xs) = []"
  by (induction xs) simp_all

lemma filter_ListResource_engineCalls:
  "filter ((=) CallListResource) tr = filter ((=) CallListResource) (engineCalls tr)"
  by (induction tr) (auto simp: engineCalls_def)

lemmas fixture_defs = abc_def aubc_def failB_def exampleFlags_def item_def scriptedMeta_def
  exampleConfig_def exampleWorld_def

lemmas run_defs = batchImport_def discovered_def runLogger_def importBody_def Skip_def
  TFAddr_def failedMsg_def warnLine_def importingLine_def Let_def

section \<open>Phases of a run\<close>

text \<open>
  C5. The calls a run makes to the engine come in a fixed order. If the log file cannot
  be opened there is none. Otherwise the engine is constructed first; if that fails the
  run returns the error and nothing else is called. Then it is initialised; if that
  fails the run returns the error and discovery is not called. Otherwise
  \<open>ListResource\<close> is called, exactly once; then come the imports of the loop over the
  discovered records; and \<open>GenerateCfg\<close> is called last, on the records the loop
  leaves, exactly when the loop did not abort. When the loop aborts, its error is the
  error of the run.
\<close>

theorem phase_order:
  assumes "batchImport openFile c cfg k = (res, tr)"
  shows "(\<forall>e. Logfile cfg \<noteq> [] \<and> openFile (Logfile cfg) = Some e \<longrightarrow>
             res = Some e \<and> engineCalls tr = []) \<and>
         ((Logfile cfg = [] \<or> openFile (Logfile cfg) = None) \<longrightarrow>
          (\<forall>e. NewMeta c cfg = Inl e \<longrightarrow> res = Some e \<and> engineCalls tr = [CallNewMeta cfg]) \<and>
          (\<forall>s0 e. NewMeta c cfg = Inr s0 \<and> Init c s0 = Inl e \<longrightarrow>
             res = Some e \<and> engineCalls tr = [CallNewMeta cfg, CallInit]) \<and>
          (\<forall>s0 s1 rs s2 r rs' s3 ev.
             NewMeta c cfg = Inr s0 \<and> Init c s0 = Inr s1 \<and> ListResource c s1 = (rs, s2) \<and>
             importLoop c k (runLogger cfg) rs s2 = (r, rs', s3, ev) \<longrightarrow>
             engineCalls tr =
               [CallNewMeta cfg, CallInit, CallListResource] @ map CallImport (importsOf ev) @
               (if r = None then [CallGenerateCfg rs'] else []) \<and>
             length (filter ((=) CallListResource) tr) = 1 \<and>
             (r \<noteq> None \<longrightarrow> res = r)))"
proof (intro conjI allI impI)
  fix e assume "Logfile cfg \<noteq> [] \<and> openFile (Logfile cfg) = Some e"
  then show "res = Some e" "engineCalls tr = []"
    using assms by (auto simp: batchImport_def engineCalls_def)
next
  fix e assume "Logfile cfg = [] \<or> openFile (Logfile cfg) = None" "NewMeta c cfg = Inl e"
  then show "res = Some e" "engineCalls tr = [CallNewMeta cfg]"
    using assms by (auto simp: batchImport_def engineCalls_def Let_def split: if_splits)
next
  fix s0 e assume "Logfile cfg = [] \<or> openFile (Logfile cfg) = None"
    "NewMeta c cfg = Inr s0 \<and> Init c s0 = Inl e"
  then show "res = Some e" "engineCalls tr = [CallNewMeta cfg, CallInit]"
    using assms by (auto simp: batchImport_def engineCalls_def Let_def split: if_splits)
next
  fix s0 s1 rs s2 r rs' s3 ev
  assume o: "Logfile cfg = [] \<or> openFile (Logfile cfg) = None"
    and a: "NewMeta c cfg = Inr s0 \<and> Init c s0 = Inr s1 \<and> ListResource c s1 = (rs, s2) \<and>
             importLoop c k (runLogger cfg) rs s2 = (r, rs', s3, ev)"
  then have d: "discovered openFile c cfg = Some (rs, s2)"
    by (auto simp: discovered_def)
  from a have l: "importLoop c k (runLogger cfg) rs s2 = (r, rs', s3, ev)" by simp
  note b = batchImport_discovered[OF d l, unfolded assms(1)]
  show calls: "engineCalls tr =
               [CallNewMeta cfg, CallInit, CallListResource] @ map CallImport (importsOf ev) @
               (if r = None then [CallGenerateCfg rs'] else [])"
    using b importLoop_engineCalls[OF l]
    by (cases r) (auto simp: engineCalls_append engineCalls_setupEvents, simp_all add: engineCalls_def)
  show "length (filter ((=) CallListResource) tr) = 1"
    unfolding filter_ListResource_engineCalls[of tr] calls
    by (simp add: filter_ListResource_imports)
  { assume "r \<noteq> None" then show "res = r" using b by auto }
qed

text \<open>
  A run over A, B, C in which the import of B fails and \<open>continueOnError\<close> is false:
  construction, initialisation, discovery, the imports of A and B, and no generation.
\<close>

theorem phase_order_witness:
  "batchImport (\<lambda>path. None) (scriptedMeta abc (failB ''boom'') None) (exampleConfig []) False =
     (Some ''Failed to import B as t.b: boom'',
      setupEvents (exampleConfig []) @
      [Log (Logger Stderr []) ''Importing A as t.a'', CallImport (item ''A'' True ''t.a''),
       Log (Logger Stderr []) ''Importing B as t.b'', CallImport (item ''B'' True ''t.b'')]) \<and>
   engineCalls (setupEvents (exampleConfig []) @
      [Log (Logger Stderr []) ''Importing A as t.a'', CallImport (item ''A'' True ''t.a''),
       Log (Logger Stderr []) ''Importing B as t.b'', CallImport (item ''B'' True ''t.b'')]) =
     [CallNewMeta (exampleConfig []), CallInit, CallListResource,
      CallImport (item ''A'' True ''t.a''), CallImport (item ''B'' True ''t.b'')]"
proof -
  let ?c = "scriptedMeta abc (failB ''boom'') None"
  let ?tr = "setupEvents (exampleConfig []) @
      [Log (Logger Stderr []) ''Importing A as t.a'', CallImport (item ''A'' True ''t.a''),
       Log (Logger Stderr []) ''Importing B as t.b'', CallImport (item ''B'' True ''t.b'')]"
  have h: "batchImport (\<lambda>path. None) ?c (exampleConfig []) False =
             (Some ''Failed to import B as t.b: boom'', ?tr)"
    by (simp add: run_defs fixture_defs setupEvents_def Errorf0_def)
  have l: "importLoop ?c False (runLogger (exampleConfig [])) abc 0 =
             (Some ''Failed to import B as t.b: boom'',
              [item ''A'' True ''t.a'', (item ''B'' True ''t.b'')\<lparr>ImportError := Some ''boom''\<rparr>,
               item ''C'' True ''t.c''], 2,
              [Log (Logger Stderr []) ''Importing A as t.a'', CallImport (item ''A'' True ''t.a''),
               Log (Logger Stderr []) ''Importing B as t.b'', CallImport (item ''B'' True ''t.b'')])"
    by (simp add: run_defs fixture_defs Errorf0_def)
  have e: "NewMeta ?c (exampleConfig []) = Inr 0 \<and> Init ?c 0 = Inr 0 \<and>
           ListResource ?c 0 = (abc, 0)"
    by (simp add: scriptedMeta_def)
  have o: "Logfile (exampleConfig []) = [] \<or> (\<lambda>path. None) (Logfile (exampleConfig [])) = (None :: error option)"
    by (simp add: exampleConfig_def)
  from phase_order [OF h] o e l h show ?thesis
    by simp
qed

section \<open>The import phase\<close>

text \<open>
  C3. In a run that reaches discovery, the records handed to the engine's \<open>Import\<close>
  are exactly the records with a mapping among the first \<open>n\<close> discovered ones, in
  order, where \<open>n\<close> is the number of records the loop visits (all of them unless the
  loop aborts). So a record without a mapping (\<open>Skip()\<close> true) is never handed to
  \<open>Import\<close>. Such a record is the same after the loop as before, its \<open>ImportError\<close>
  included, and when the loop visits it the run logs the warning line
  \<open>[WARN] No mapping information for resource: \<close>, then its resource ID, then
  \<open>, skip it\<close>.
\<close>

theorem skipped_never_imported:
  assumes "discovered openFile c cfg = Some (rs, s)"
    and "importLoop c k (runLogger cfg) rs s = (res, rs', s', ev)"
  shows "\<exists>n\<le>length rs.
           (res = None \<longrightarrow> n = length rs) \<and>
           importsOf (snd (batchImport openFile c cfg k)) = filter (\<lambda>r. \<not> Skip r) (take n rs) \<and>
           (\<forall>i<length rs. Skip (rs ! i) \<longrightarrow>
              rs' ! i = rs ! i \<and>
              (i < n \<longrightarrow>
                 Log (runLogger cfg)
                   (''[WARN] No mapping information for resource: '' @ ResourceID (rs ! i) @
                    '', skip it'')
                   \<in> set (snd (batchImport openFile c cfg k))))"
proof -
  from importLoop_reach[OF assms(2)] obtain n where n: "n \<le> length rs"
    "res = None \<longrightarrow> n = length rs"
    "importsOf ev = filter (\<lambda>r. \<not> Skip r) (take n rs)"
    "\<forall>i<n. Skip (rs ! i) \<longrightarrow> Log (runLogger cfg) (warnLine (rs ! i)) \<in> set ev"
    by blast
  note b = batchImport_discovered[OF assms]
  have tr1: "importsOf (snd (batchImport openFile c cfg k)) = importsOf ev"
    by (cases res) (simp_all add: b importsOf_append importsOf_setupEvents)
  have tr2: "set ev \<subseteq> set (snd (batchImport openFile c cfg k))"
    by (cases res) (auto simp: b)
  have "\<forall>i<length rs. Skip (rs ! i) \<longrightarrow>
              rs' ! i = rs ! i \<and>
              (i < n \<longrightarrow> Log (runLogger cfg) (warnLine (rs ! i))
                             \<in> set (snd (batchImport openFile c cfg k)))"
  proof (intro allI impI conjI)
    fix i assume i: "i < length rs" "Skip (rs ! i)"
    show "rs' ! i = rs ! i" using importLoop_nth[OF assms(2) i(1)] i(2) by simp
    assume "i < n"
    then have "Log (runLogger cfg) (warnLine (rs ! i)) \<in> set ev" using n(4) i(2) by simp
    then show "Log (runLogger cfg) (warnLine (rs ! i)) \<in> set (snd (batchImport openFile c cfg k))"
      using tr2 by (rule rev_subsetD)
  qed
  then show ?thesis using n(1,2,3) tr1 unfolding warnLine_def by auto
qed

text \<open>
  Four records, the second without a mapping: three imports, the second record
  unchanged, and its warning in the trace.
\<close>

theorem skipped_never_imported_witness:
  "discovered (\<lambda>path. None) (scriptedMeta aubc (\<lambda>rid. None) None) (exampleConfig []) =
     Some (aubc, 0) \<and>
   Skip (aubc ! 1) \<and>
   importsOf (snd (batchImport (\<lambda>path. None) (scriptedMeta aubc (\<lambda>rid. None) None)
                     (exampleConfig []) False)) = abc \<and>
   fst (snd (importLoop (scriptedMeta aubc (\<lambda>rid. None) None) False (runLogger (exampleConfig []))
               aubc 0)) ! 1 = aubc ! 1 \<and>
   Log (Logger Stderr []) ''[WARN] No mapping information for resource: U, skip it''
     \<in> set (snd (batchImport (\<lambda>path. None) (scriptedMeta aubc (\<lambda>rid. None) None)
                   (exampleConfig []) False))"
proof -
  let ?c = "scriptedMeta aubc (\<lambda>rid. None) None"
  let ?tr = "snd (batchImport (\<lambda>path. None) ?c (exampleConfig []) False)"
  have d: "discovered (\<lambda>path. None) ?c (exampleConfig []) = Some (aubc, 0)"
    by (simp add: discovered_def scriptedMeta_def exampleConfig_def)
  obtain res rs' s' ev where
    l: "importLoop ?c False (runLogger (exampleConfig [])) aubc 0 = (res, rs', s', ev)"
    by (cases "importLoop ?c False (runLogger (exampleConfig [])) aubc 0") auto
  have res: "res = None"
    using l by (simp add: run_defs fixture_defs)
  have sk: "Skip (aubc ! 1)" "length aubc = 4" "filter (\<lambda>r. \<not> Skip r) aubc = abc"
    by (simp_all add: aubc_def abc_def item_def Skip_def)
  have wl: "Log (runLogger (exampleConfig []))
              (''[WARN] No mapping information for resource: '' @ ResourceID (aubc ! 1) @
               '', skip it'') =
            Log (Logger Stderr []) ''[WARN] No mapping information for resource: U, skip it''"
    by (simp add: runLogger_def exampleConfig_def aubc_def item_def)
  from skipped_never_imported [OF d l] res sk(2) obtain n where
    n: "n = 4" "importsOf ?tr = filter (\<lambda>r. \<not> Skip r) (take n aubc)"
       "\<forall>i<length aubc. Skip (aubc ! i) \<longrightarrow> rs' ! i = aubc ! i \<and>
          (i < n \<longrightarrow>
             Log (runLogger (exampleConfig []))
               (''[WARN] No mapping information for resource: '' @ ResourceID (aubc ! i) @
                '', skip it'') \<in> set ?tr)"
    by auto
  from n(3)[rule_format, of 1] sk n(1) wl have
    "rs' ! 1 = aubc ! 1"
    "Log (Logger Stderr []) ''[WARN] No mapping information for resource: U, skip it'' \<in> set ?tr"
    by simp_all
  then show ?thesis using d sk n(1,2) l by simp
qed

text \<open>
  C2. With \<open>continueOnError\<close> true, in a run that reaches discovery the loop never
  aborts: every record with a mapping is handed to \<open>Import\<close>, once and in discovery
  order, whatever failed before it; every failure is logged on a line marked \<open>[ERROR]\<close>
  that carries the failure message; and \<open>GenerateCfg\<close> is called exactly once, with the
  whole sequence the loop leaves: it is as long as the discovered one, and position by
  position its record is the discovered record or that record as \<open>Import\<close> returned it.
\<close>

theorem continue_attempts_all:
  assumes "discovered openFile c cfg = Some (rs, s)"
  shows "\<exists>rs' s' ev.
           importLoop c True (runLogger cfg) rs s = (None, rs', s', ev) \<and>
           importsOf (snd (batchImport openFile c cfg True)) = filter (\<lambda>r. \<not> Skip r) rs \<and>
           generatedOf (snd (batchImport openFile c cfg True)) = [rs'] \<and>
           length rs' = length rs \<and>
           (\<forall>i<length rs. rs' ! i = rs ! i \<or> (\<exists>t. rs' ! i = fst (Import c t (rs ! i)))) \<and>
           (\<forall>i<length rs. \<forall>err. \<not> Skip (rs ! i) \<and> ImportError (rs' ! i) = Some err \<longrightarrow>
              Log (runLogger cfg) (''[ERROR] '' @ failedMsg (rs' ! i) err)
                \<in> set (snd (batchImport openFile c cfg True)))"
proof -
  obtain res rs' s' ev where l: "importLoop c True (runLogger cfg) rs s = (res, rs', s', ev)"
    by (cases "importLoop c True (runLogger cfg) rs s") auto
  have res: "res = None" using importLoop_continue[OF l] .
  note b = batchImport_discovered[OF assms l, unfolded res, simplified]
  from importLoop_reach[OF l] res
  have imp: "importsOf ev = filter (\<lambda>r. \<not> Skip r) rs" by auto
  have "importsOf (snd (batchImport openFile c cfg True)) = filter (\<lambda>r. \<not> Skip r) rs"
    by (simp add: b importsOf_append importsOf_setupEvents imp)
  moreover have "generatedOf (snd (batchImport openFile c cfg True)) = [rs']"
    by (simp add: b generatedOf_append generatedOf_setupEvents importLoop_generatedOf[OF l])
  moreover have "length rs' = length rs" using importLoop_length[OF l] .
  moreover have "\<forall>i<length rs. rs' ! i = rs ! i \<or> (\<exists>t. rs' ! i = fst (Import c t (rs ! i)))"
    using importLoop_nth[OF l] by blast
  moreover have "\<forall>i<length rs. \<forall>err. \<not> Skip (rs ! i) \<and> ImportError (rs' ! i) = Some err \<longrightarrow>
              Log (runLogger cfg) (''[ERROR] '' @ failedMsg (rs' ! i) err)
                \<in> set (snd (batchImport openFile c cfg True))"
    using importLoop_error_logged[OF l] by (auto simp: b)
  ultimately show ?thesis using l res by blast
qed

text \<open>
  A, U (no mapping), B (import fails), C: A, B and C are imported, the failure of B is
  logged, and generation receives all four records.
\<close>

theorem continue_attempts_all_witness:
  "discovered (\<lambda>path. None) (scriptedMeta aubc (failB ''boom'') None) (exampleConfig []) =
     Some (aubc, 0) \<and>
   importsOf (snd (batchImport (\<lambda>path. None) (scriptedMeta aubc (failB ''boom'') None)
                     (exampleConfig []) True))
     = abc \<and>
   generatedOf (snd (batchImport (\<lambda>path. None) (scriptedMeta aubc (failB ''boom'') None)
                       (exampleConfig []) True))
     = [[item ''A'' True ''t.a'', item ''U'' False [],
         (item ''B'' True ''t.b'')\<lparr>ImportError := Some ''boom''\<rparr>, item ''C'' True ''t.c'']] \<and>
   Log (Logger Stderr []) ''[ERROR] Failed to import B as t.b: boom''
     \<in> set (snd (batchImport (\<lambda>path. None) (scriptedMeta aubc (failB ''boom'') None)
                   (exampleConfig []) True))"
proof -
  let ?c = "scriptedMeta aubc (failB ''boom'') None"
  let ?tr = "snd (batchImport (\<lambda>path. None) ?c (exampleConfig []) True)"
  let ?rs = "[item ''A'' True ''t.a'', item ''U'' False [],
              (item ''B'' True ''t.b'')\<lparr>ImportError := Some ''boom''\<rparr>, item ''C'' True ''t.c'']"
  have d: "discovered (\<lambda>path. None) ?c (exampleConfig []) = Some (aubc, 0)"
    by (simp add: discovered_def scriptedMeta_def exampleConfig_def)
  have l: "fst (snd (importLoop ?c True (runLogger (exampleConfig [])) aubc 0)) = ?rs"
    by (simp add: run_defs fixture_defs)
  have f: "filter (\<lambda>r. \<not> Skip r) aubc = abc"
    by (simp add: aubc_def abc_def item_def Skip_def)
  from continue_attempts_all [OF d] obtain rs' s' ev where
    w: "importLoop ?c True (runLogger (exampleConfig [])) aubc 0 = (None, rs', s', ev)"
       "importsOf ?tr = filter (\<lambda>r. \<not> Skip r) aubc"
       "generatedOf ?tr = [rs']"
       "\<forall>i<length aubc. \<forall>err. \<not> Skip (aubc ! i) \<and> ImportError (rs' ! i) = Some err \<longrightarrow>
          Log (runLogger (exampleConfig [])) (''[ERROR] '' @ failedMsg (rs' ! i) err) \<in> set ?tr"
    by blast
  from w(1) l have rs': "rs' = ?rs"
    by simp
  have "Log (runLogger (exampleConfig [])) (''[ERROR] '' @ failedMsg (rs' ! 2) ''boom'') \<in> set ?tr"
    using w(4)[rule_format, of 2 "''boom''"]
    by (simp add: rs' aubc_def item_def Skip_def)
  then have "Log (Logger Stderr []) ''[ERROR] Failed to import B as t.b: boom'' \<in> set ?tr"
    by (simp add: rs' runLogger_def exampleConfig_def failedMsg_def item_def TFAddr_def)
  then show ?thesis using d w(2,3) f rs' by simp
qed

text \<open>
  C4. In a run that reaches discovery, any sequence handed to \<open>GenerateCfg\<close> is the
  only one handed to it; it is as long as the discovered sequence, and position by
  position its record is the discovered record itself or that record as the engine's
  \<open>Import\<close> returned it; a record without a mapping is the discovered record itself.
  The orchestrator itself writes to no record. When the engine's \<open>Import\<close> writes
  \<open>ImportError\<close> only, each record handed to generation differs from the discovered
  one in \<open>ImportError\<close> at most.
\<close>

theorem generation_receives_discovered_sequence:
  assumes "discovered openFile c cfg = Some (rs, s)"
    and "g \<in> set (generatedOf (snd (batchImport openFile c cfg k)))"
  shows "generatedOf (snd (batchImport openFile c cfg k)) = [g] \<and>
         length g = length rs \<and>
         (\<forall>i<length rs.
            (Skip (rs ! i) \<longrightarrow> g ! i = rs ! i) \<and>
            (g ! i = rs ! i \<or> (\<exists>t. g ! i = fst (Import c t (rs ! i)))) \<and>
            (importWritesOnlyError c \<longrightarrow> g ! i = (rs ! i)\<lparr>ImportError := ImportError (g ! i)\<rparr>))"
proof -
  obtain res rs' s' ev where l: "importLoop c k (runLogger cfg) rs s = (res, rs', s', ev)"
    by (cases "importLoop c k (runLogger cfg) rs s") auto
  note b = batchImport_discovered[OF assms(1) l]
  have gen: "generatedOf (snd (batchImport openFile c cfg k)) = (if res = None then [rs'] else [])"
    by (cases res)
      (simp_all add: b generatedOf_append generatedOf_setupEvents importLoop_generatedOf[OF l])
  with assms(2) have g: "res = None" "g = rs'"
    by (simp_all split: if_splits)
  have "\<forall>i<length rs.
            (Skip (rs ! i) \<longrightarrow> g ! i = rs ! i) \<and>
            (g ! i = rs ! i \<or> (\<exists>t. g ! i = fst (Import c t (rs ! i)))) \<and>
            (importWritesOnlyError c \<longrightarrow> g ! i = (rs ! i)\<lparr>ImportError := ImportError (g ! i)\<rparr>)"
  proof (intro allI impI conjI)
    fix i assume i: "i < length rs"
    note nth = importLoop_nth[OF l i, folded g(2)]
    show "g ! i = rs ! i \<or> (\<exists>t. g ! i = fst (Import c t (rs ! i)))" using nth by blast
    { assume "Skip (rs ! i)" then show "g ! i = rs ! i" using nth by simp }
    { assume w: "importWritesOnlyError c"
      from nth consider "g ! i = rs ! i" | t where "g ! i = fst (Import c t (rs ! i))" by blast
      then show "g ! i = (rs ! i)\<lparr>ImportError := ImportError (g ! i)\<rparr>"
      proof cases
        case 1
        then show ?thesis by simp
      next
        case 2
        from w have "fst (Import c t (rs ! i)) =
            (rs ! i)\<lparr>ImportError := ImportError (fst (Import c t (rs ! i)))\<rparr>"
          unfolding importWritesOnlyError_def by blast
        then show ?thesis using 2 by simp
      qed }
  qed
  then show ?thesis using gen g importLoop_length[OF l] by simp
qed

theorem generation_receives_discovered_sequence_witness:
  "discovered (\<lambda>path. None) (scriptedMeta aubc (failB ''boom'') None) (exampleConfig []) =
     Some (aubc, 0) \<and>
   importWritesOnlyError (scriptedMeta aubc (failB ''boom'') None) \<and>
   generatedOf (snd (batchImport (\<lambda>path. None) (scriptedMeta aubc (failB ''boom'') None)
                       (exampleConfig []) True))
     = [[item ''A'' True ''t.a'', item ''U'' False [],
         (item ''B'' True ''t.b'')\<lparr>ImportError := Some ''boom''\<rparr>, item ''C'' True ''t.c'']] \<and>
   length [item ''A'' True ''t.a'', item ''U'' False [],
         (item ''B'' True ''t.b'')\<lparr>ImportError := Some ''boom''\<rparr>, item ''C'' True ''t.c'']
     = length aubc"
proof -
  let ?c = "scriptedMeta aubc (failB ''boom'') None"
  let ?g = "[item ''A'' True ''t.a'', item ''U'' False [],
         (item ''B'' True ''t.b'')\<lparr>ImportError := Some ''boom''\<rparr>, item ''C'' True ''t.c'']"
  have d: "discovered (\<lambda>path. None) ?c (exampleConfig []) = Some (aubc, 0)"
    by (simp add: discovered_def scriptedMeta_def exampleConfig_def)
  have w: "importWritesOnlyError ?c"
    by (simp add: importWritesOnlyError_def scriptedMeta_def)
  have g: "?g \<in> set (generatedOf (snd (batchImport (\<lambda>path. None) ?c (exampleConfig []) True)))"
    by (simp add: run_defs fixture_defs)
  from generation_receives_discovered_sequence [OF d g] d w show ?thesis
    by simp
qed

section \<open>Errors of a run\<close>

text \<open>
  C6. When the loop does not abort and \<open>GenerateCfg\<close> returns an error, the run returns
  an error: its text is the context \<open>generating Terraform configuration: \<close> followed by
  the text of the cause.
\<close>

theorem generation_failure_is_fatal:
  assumes "discovered openFile c cfg = Some (rs, s)"
    and "importLoop c k (runLogger cfg) rs s = (None, rs', s', ev)"
    and "GenerateCfg c s' rs' = Some cause"
  shows "fst (batchImport openFile c cfg k) =
           Some (''generating Terraform configuration: '' @ cause)"
  using batchImport_discovered[OF assms(1,2)] assms(3) by simp

theorem generation_failure_is_fatal_witness:
  "discovered (\<lambda>path. None) (scriptedMeta abc (failB ''boom'') (Some ''disk full'')) (exampleConfig [])
     = Some (abc, 0) \<and>
   fst (batchImport (\<lambda>path. None) (scriptedMeta abc (failB ''boom'') (Some ''disk full''))
          (exampleConfig []) True)
     = Some ''generating Terraform configuration: disk full''"
proof -
  let ?c = "scriptedMeta abc (failB ''boom'') (Some ''disk full'')"
  have d: "discovered (\<lambda>path. None) ?c (exampleConfig []) = Some (abc, 0)"
    by (simp add: discovered_def scriptedMeta_def exampleConfig_def)
  obtain rs' s' ev where
    l: "importLoop ?c True (runLogger (exampleConfig [])) abc 0 = (None, rs', s', ev)"
    using importLoop_continue[of ?c "runLogger (exampleConfig [])" abc 0]
    by (cases "importLoop ?c True (runLogger (exampleConfig [])) abc 0") auto
  have g: "GenerateCfg ?c s' rs' = Some ''disk full''"
    by (simp add: scriptedMeta_def)
  from generation_failure_is_fatal [OF d l g] d show ?thesis
    by simp
qed

text \<open>
  C8. Two runs with \<open>continueOnError\<close> false, possibly with different engines, loggers
  and configurations, discover the same records; in both, the imports before the record
  \<open>b\<close> succeed and the import of \<open>b\<close> fails with the same cause, leaving the same
  resource ID and target address on the record. Then both runs return the same error:
  \<open>fmt.Errorf\<close> applied to the message built from that resource ID, target address and
  cause.
\<close>

theorem abort_error_deterministic:
  assumes "discovered openFile1 c1 cfg1 = Some (as @ b # cs, s1)"
    and "discovered openFile2 c2 cfg2 = Some (as @ b # cs, s2)"
    and "importLoop c1 False (runLogger cfg1) as s1 = (None, as1, t1, ev1)"
    and "importLoop c2 False (runLogger cfg2) as s2 = (None, as2, t2, ev2)"
    and "\<not> Skip b"
    and "Import c1 t1 b = (b1, u1)" and "Import c2 t2 b = (b2, u2)"
    and "ImportError b1 = Some cause" and "ImportError b2 = Some cause"
    and "ResourceID b1 = ResourceID b2" and "TFAddr b1 = TFAddr b2"
  shows "fst (batchImport openFile1 c1 cfg1 False) = fst (batchImport openFile2 c2 cfg2 False) \<and>
         fst (batchImport openFile1 c1 cfg1 False) =
           Some (Errorf0 (''Failed to import '' @ ResourceID b1 @ '' as '' @ TFAddr b1 @ '': '' @ cause))"
  using batchImport_abort[OF assms(1,3,5,6,8)] batchImport_abort[OF assms(2,4,5,7,9)] assms(10,11)
  by (simp add: failedMsg_def)

theorem abort_error_deterministic_witness:
  "discovered (\<lambda>path. None) (scriptedMeta abc (failB ''boom'') None) (exampleConfig []) =
     Some ([item ''A'' True ''t.a''] @ item ''B'' True ''t.b'' # [item ''C'' True ''t.c''], 0) \<and>
   discovered (\<lambda>path. None) (scriptedMeta abc (failB ''boom'') (Some ''disk full''))
       (exampleConfig ''run.log'') =
     Some ([item ''A'' True ''t.a''] @ item ''B'' True ''t.b'' # [item ''C'' True ''t.c''], 0) \<and>
   fst (batchImport (\<lambda>path. None) (scriptedMeta abc (failB ''boom'') None) (exampleConfig []) False) =
   fst (batchImport (\<lambda>path. None) (scriptedMeta abc (failB ''boom'') (Some ''disk full''))
          (exampleConfig ''run.log'') False) \<and>
   fst (batchImport (\<lambda>path. None) (scriptedMeta abc (failB ''boom'') None) (exampleConfig []) False) =
     Some ''Failed to import B as t.b: boom''"
proof -
  let ?c1 = "scriptedMeta abc (failB ''boom'') None"
  let ?c2 = "scriptedMeta abc (failB ''boom'') (Some ''disk full'')"
  let ?A = "item ''A'' True ''t.a''" and ?B = "item ''B'' True ''t.b''"
  let ?C = "item ''C'' True ''t.c''"
  have d1: "discovered (\<lambda>path. None) ?c1 (exampleConfig []) = Some ([?A] @ ?B # [?C], 0)"
    by (simp add: discovered_def scriptedMeta_def exampleConfig_def abc_def)
  have d2: "discovered (\<lambda>path. None) ?c2 (exampleConfig ''run.log'') = Some ([?A] @ ?B # [?C], 0)"
    by (simp add: discovered_def scriptedMeta_def exampleConfig_def abc_def)
  have l1: "importLoop ?c1 False (runLogger (exampleConfig [])) [?A] 0 =
              (None, [?A], 1, [Log (Logger Stderr []) ''Importing A as t.a'', CallImport ?A])"
    by (simp add: run_defs fixture_defs)
  have l2: "importLoop ?c2 False (runLogger (exampleConfig ''run.log'')) [?A] 0 =
              (None, [?A], 1,
               [Log (Logger (File ''run.log'') ''aztfy'') ''Importing A as t.a'', CallImport ?A])"
    by (simp add: run_defs fixture_defs)
  have sk: "\<not> Skip ?B" by (simp add: Skip_def item_def)
  have i1: "Import ?c1 1 ?B = (?B\<lparr>ImportError := Some ''boom''\<rparr>, 2)"
    and i2: "Import ?c2 1 ?B = (?B\<lparr>ImportError := Some ''boom''\<rparr>, 2)"
    by (simp_all add: fixture_defs)
  have e: "ImportError (?B\<lparr>ImportError := Some ''boom''\<rparr>) = Some ''boom''" by simp
  have m: "Errorf0 (''Failed to import '' @ ResourceID (?B\<lparr>ImportError := Some ''boom''\<rparr>) @
             '' as '' @ TFAddr (?B\<lparr>ImportError := Some ''boom''\<rparr>) @ '': '' @ ''boom'') =
           ''Failed to import B as t.b: boom''"
    by (simp add: Errorf0_def item_def TFAddr_def)
  note t = abort_error_deterministic [OF d1 d2 l1 l2 sk i1 i2 e e refl refl, unfolded m]
  show ?thesis
    by (intro conjI d1 d2 conjunct1[OF t] conjunct2[OF t])
qed

text \<open>
  C1, at a failing input. Records A, B, C, \<open>continueOnError\<close> false, and the import of B
  fails with the cause \<open>quota 100% used\<close>. The run stops after the import of B, C is not
  imported and generation is not called. The error returned is \<open>fmt.Errorf(msg)\<close>, with
  the message as the format string: the percent sign of the cause starts a verb with no
  operand, and the text returned no longer contains the cause.
\<close>

theorem abort_error_mangles_cause:
  "batchImport (\<lambda>path. None) (scriptedMeta abc (failB ''quota 100% used'') None) (exampleConfig [])
     False =
     (Some ''Failed to import B as t.b: quota 100%!u(MISSING)sed'',
      setupEvents (exampleConfig []) @
      [Log (Logger Stderr []) ''Importing A as t.a'', CallImport (item ''A'' True ''t.a''),
       Log (Logger Stderr []) ''Importing B as t.b'', CallImport (item ''B'' True ''t.b'')]) \<and>
   \<not> sublist ''quota 100% used'' ''Failed to import B as t.b: quota 100%!u(MISSING)sed''"
proof -
  have f: "Errorf0 ''Failed to import B as t.b: quota 100% used'' =
           ''Failed to import B as t.b: quota 100%!u(MISSING)sed''"
    by code_simp
  have s: "\<not> sublist ''quota 100% used'' ''Failed to import B as t.b: quota 100%!u(MISSING)sed''"
    by code_simp
  show ?thesis
    using s by (simp add: run_defs fixture_defs setupEvents_def f)
qed

section \<open>Process boundary\<close>

text \<open>
  C9. With the version flag set, the process writes the version to standard output and
  exits with code 0, whatever the other flags and the positional arguments are: the
  arity check, the two flag checks and all engine work come after.
\<close>

theorem version_before_checks:
  assumes "flagVersion fl"
  shows "main w fl args = (0, [Write Stdout (version w @ nl)])"
  using assms by (simp add: main_def)

text \<open>
  With \<open>-v\<close>, \<open>-k\<close> without \<open>-q\<close> and no positional argument the process exits 0;
  without \<open>-v\<close> the same command line exits 1.
\<close>

theorem version_before_checks_witness:
  "flagVersion (exampleFlags True [] True False) \<and>
   main (exampleWorld (scriptedMeta abc (\<lambda>rid. None) None)) (exampleFlags True [] True False) [] =
     (0, [Write Stdout (''v0.1.0'' @ nl)]) \<and>
   fst (main (exampleWorld (scriptedMeta abc (\<lambda>rid. None) None))
          (exampleFlags False [] True False) []) = 1"
proof -
  have h: "flagVersion (exampleFlags True [] True False)"
    by (simp add: exampleFlags_def)
  have v: "version (exampleWorld (scriptedMeta abc (\<lambda>rid. None) None)) = ''v0.1.0''"
    by (simp add: exampleWorld_def)
  have r: "fst (main (exampleWorld (scriptedMeta abc (\<lambda>rid. None) None))
                  (exampleFlags False [] True False) []) = 1"
    by (simp add: main_def exampleFlags_def)
  show ?thesis
    using h r version_before_checks
      [OF h, of "exampleWorld (scriptedMeta abc (\<lambda>rid. None) None)" "[]"]
    by (simp add: v)
qed

text \<open>
  C7, as stated, fails: with \<open>-v\<close> set, quiet mode without a mapping file is not
  rejected; the process prints the version and exits with code 0.
\<close>

theorem quiet_without_mapping_counterexample:
  "flagQuietMode (exampleFlags True [] False True) \<and>
   flagMappingFile (exampleFlags True [] False True) = [] \<and>
   main (exampleWorld (scriptedMeta abc (\<lambda>rid. None) None)) (exampleFlags True [] False True)
     [''rg'']
     = (0, [Write Stdout (''v0.1.0'' @ nl)])"
  by (simp add: main_def exampleFlags_def exampleWorld_def)

text \<open>
  C7, amended. When the version flag is not set, quiet mode without a mapping file is
  rejected before any engine work, and continue-on-error without quiet mode likewise,
  whatever the other flags and the positional arguments are; and every failure of the
  argument validation (a number of positional arguments other than one, or one of these
  two flag combinations) ends the process with exit code 1 and its message on standard
  error: the usage text and the flag defaults for the wrong number of arguments, the
  message of the failed flag check otherwise. Nothing else is written and the engine is
  never called.
\<close>

theorem flag_checks:
  assumes "\<not> flagVersion fl"
    and "length args \<noteq> 1 \<or> flagQuietMode fl \<and> flagMappingFile fl = [] \<or>
         flagContinue fl \<and> \<not> flagQuietMode fl"
  shows "main w fl args =
           (1, if length args \<noteq> 1 then [Write Stderr (usage @ nl), PrintDefaults]
               else if flagQuietMode fl
                 then [Write Stderr (''`-q` must be used together with `-m`'' @ nl)]
                 else [Write Stderr (''`-k` must be used together with `-q`'' @ nl)])
         \<and> engineCalls (snd (main w fl args)) = []"
  using assms by (auto simp: main_def fatal_def engineCalls_def)

text \<open>
  Without \<open>-v\<close>: \<open>-q\<close> without \<open>-m\<close> and one argument; \<open>-k\<close> without \<open>-q\<close> and one
  argument; consistent flags and no argument.
\<close>

theorem flag_checks_witness:
  "\<not> flagVersion (exampleFlags False [] False True) \<and>
   flagQuietMode (exampleFlags False [] False True) \<and>
   flagMappingFile (exampleFlags False [] False True) = [] \<and>
   main (exampleWorld (scriptedMeta abc (\<lambda>rid. None) None)) (exampleFlags False [] False True)
     [''rg'']
     = (1, [Write Stderr (''`-q` must be used together with `-m`'' @ nl)]) \<and>
   main (exampleWorld (scriptedMeta abc (\<lambda>rid. None) None))
     (exampleFlags False ''map.json'' True False) [''rg'']
     = (1, [Write Stderr (''`-k` must be used together with `-q`'' @ nl)]) \<and>
   main (exampleWorld (scriptedMeta abc (\<lambda>rid. None) None))
     (exampleFlags False [] False False) []
     = (1, [Write Stderr (usage @ nl), PrintDefaults])"
proof -
  let ?w = "exampleWorld (scriptedMeta abc (\<lambda>rid. None) None)"
  have v: "\<not> flagVersion (exampleFlags False [] False True)"
    "\<not> flagVersion (exampleFlags False ''map.json'' True False)"
    "\<not> flagVersion (exampleFlags False [] False False)"
    by (simp_all add: exampleFlags_def)
  have q: "length [''rg''] \<noteq> 1 \<or>
           flagQuietMode (exampleFlags False [] False True) \<and>
           flagMappingFile (exampleFlags False [] False True) = [] \<or>
           flagContinue (exampleFlags False [] False True) \<and>
           \<not> flagQuietMode (exampleFlags False [] False True)"
    by (simp add: exampleFlags_def)
  have k: "length [''rg''] \<noteq> 1 \<or>
           flagQuietMode (exampleFlags False ''map.json'' True False) \<and>
           flagMappingFile (exampleFlags False ''map.json'' True False) = [] \<or>
           flagContinue (exampleFlags False ''map.json'' True False) \<and>
           \<not> flagQuietMode (exampleFlags False ''map.json'' True False)"
    by (simp add: exampleFlags_def)
  have a: "length ([] :: string list) \<noteq> 1 \<or>
           flagQuietMode (exampleFlags False [] False False) \<and>
           flagMappingFile (exampleFlags False [] False False) = [] \<or>
           flagContinue (exampleFlags False [] False False) \<and>
           \<not> flagQuietMode (exampleFlags False [] False False)"
    by simp
  have f: "flagQuietMode (exampleFlags False [] False True)"
    "flagMappingFile (exampleFlags False [] False True) = []"
    "\<not> flagQuietMode (exampleFlags False ''map.json'' True False)"
    by (simp_all add: exampleFlags_def)
  show ?thesis
    using v(1) f flag_checks [OF v(1) q, of ?w] flag_checks [OF v(2) k, of ?w]
      flag_checks [OF v(3) a, of ?w]
    by simp
qed

section \<open>Log file\<close>

text \<open>
  C10. When the configuration names a log file and opening it fails, \<open>batchImport\<close>
  returns the open error at once: the trace ends with the attempt to open the file, so
  the engine is never constructed, discovery never runs and no record is imported.
\<close>

theorem logfile_open_failure:
  assumes "Logfile cfg \<noteq> []" and "openFile (Logfile cfg) = Some err"
  shows "batchImport openFile c cfg k = (Some err, [SetOutputDiscard, CallOpenFile (Logfile cfg)])
         \<and> engineCalls (snd (batchImport openFile c cfg k)) = []
         \<and> importsOf (snd (batchImport openFile c cfg k)) = []"
  using assms by (simp add: batchImport_def engineCalls_def)

theorem logfile_open_failure_witness:
  "Logfile (exampleConfig ''/nonexistent/aztfy.log'') \<noteq> [] \<and>
   batchImport (\<lambda>path. Some ''open /nonexistent/aztfy.log: no such file or directory'')
     (scriptedMeta abc (\<lambda>rid. None) None) (exampleConfig ''/nonexistent/aztfy.log'') True =
   (Some ''open /nonexistent/aztfy.log: no such file or directory'',
    [SetOutputDiscard, CallOpenFile ''/nonexistent/aztfy.log''])"
proof -
  have h: "Logfile (exampleConfig ''/nonexistent/aztfy.log'') \<noteq> []"
    by (simp add: exampleConfig_def)
  show ?thesis
    using h logfile_open_failure [OF h, of
        "\<lambda>path. Some ''open /nonexistent/aztfy.log: no such file or directory''"
        "''open /nonexistent/aztfy.log: no such file or directory''"
        "scriptedMeta abc (\<lambda>rid. None) None" True]
    by (simp add: exampleConfig_def)
qed

end
